theory Spec2Isabelle
  imports Main
begin

section \<open>Values and types\<close>

text \<open>
  The repository consists of TypeScript type declarations only
  (\<^verbatim>\<open>types/color-scheme.ts\<close> and \<^verbatim>\<open>types/theme.ts\<close>).  A declaration is modelled by
  the type it denotes, a term of \<open>ty\<close>, and a type is given its meaning by \<open>conforms\<close>:
  the plain JavaScript values that inhabit it.

  The payload of a number is never inspected by a type, so it is a type parameter.
  An object is the list of its own entries; a property is read with \<open>map_of\<close>.
  A function value is a reference; a function type asks of a value only that it is a
  function.  Which function bodies the checker accepts at a generic function type is a
  judgement on programs, and there are no programs in these declarations.
\<close>

datatype 'n val =
    VUndefined
  | VBool bool
  | VNum 'n
  | VStr string
  | VArr "'n val list"
  | VObj "(string \<times> 'n val) list"
  | VFun nat

text \<open>
  The type forms the declarations use: the primitive types, string and boolean literal
  types, arrays, tuples, unions, intersections and object types.  An object type is a
  list of members (name, optional?, type) and an optional string index signature.
  \<open>TEndo B\<close> is the generic function type \<^verbatim>\<open><T extends B>(x: T) => T\<close>.
\<close>

datatype ty =
    TNever
  | TUndefined
  | TString
  | TNumber
  | TBoolean
  | TStrLit string
  | TBoolLit bool
  | TArray ty
  | TTuple "ty list"
  | TUnion "ty list"
  | TInter "ty list"
  | TObj "(string \<times> bool \<times> ty) list" "ty option"
  | TEndo ty

fun obj_get :: "'n val \<Rightarrow> string \<Rightarrow> 'n val option" where
  "obj_get (VObj m) k = map_of m k"
| "obj_get _ k = None"

fun obj_keys :: "'n val \<Rightarrow> string set" where
  "obj_keys (VObj m) = fst ` set m"
| "obj_keys _ = {}"

fun is_num :: "'n val \<Rightarrow> bool" where
  "is_num (VNum _) = True"
| "is_num _ = False"

fun is_str :: "'n val \<Rightarrow> bool" where
  "is_str (VStr _) = True"
| "is_str _ = False"

fun is_bool :: "'n val \<Rightarrow> bool" where
  "is_bool (VBool _) = True"
| "is_bool _ = False"

fun is_fun :: "'n val \<Rightarrow> bool" where
  "is_fun (VFun _) = True"
| "is_fun _ = False"

fun is_obj :: "'n val \<Rightarrow> bool" where
  "is_obj (VObj _) = True"
| "is_obj _ = False"

text \<open>
  Conformance of a value to a type.  An optional member may be missing or hold
  \<^verbatim>\<open>undefined\<close>; a required member must be there; an index signature constrains every
  entry of the object; object types are open (entries that no member names are allowed
  when there is no index signature).
\<close>

fun conforms :: "ty \<Rightarrow> 'n val \<Rightarrow> bool" where
  "conforms TNever v = False"
| "conforms TUndefined v = (v = VUndefined)"
| "conforms TString v = is_str v"
| "conforms TNumber v = is_num v"
| "conforms TBoolean v = is_bool v"
| "conforms (TStrLit s) v = (v = VStr s)"
| "conforms (TBoolLit b) v = (v = VBool b)"
| "conforms (TArray t) v =
     (case v of VArr xs \<Rightarrow> (\<forall>x \<in> set xs. conforms t x) | _ \<Rightarrow> False)"
| "conforms (TTuple ts) v =
     (case v of VArr xs \<Rightarrow> list_all2 (\<lambda>t x. conforms t x) ts xs | _ \<Rightarrow> False)"
| "conforms (TUnion ts) v = (\<exists>t \<in> set ts. conforms t v)"
| "conforms (TInter ts) v = (\<forall>t \<in> set ts. conforms t v)"
| "conforms (TObj ps idx) v =
     (case v of
        VObj m \<Rightarrow>
          (\<forall>p \<in> set ps.
             case p of (k, opt, t) \<Rightarrow>
               (case map_of m k of
                  None \<Rightarrow> opt
                | Some x \<Rightarrow> (opt \<and> x = VUndefined) \<or> conforms t x))
          \<and> (case idx of
               None \<Rightarrow> True
             | Some t \<Rightarrow> (\<forall>e \<in> set m. conforms t (snd e)))
      | _ \<Rightarrow> False)"
| "conforms (TEndo b) v = is_fun v"

fun members :: "ty \<Rightarrow> (string \<times> bool \<times> ty) list" where
  "members (TObj ps idx) = ps"
| "members _ = []"

fun index_sig :: "ty \<Rightarrow> ty option" where
  "index_sig (TObj ps idx) = idx"
| "index_sig _ = None"

text \<open>The declared type of the member \<open>k\<close> of an object type.\<close>

definition member_ty :: "ty \<Rightarrow> string \<Rightarrow> ty" where
  "member_ty T k = (case map_of (members T) k of None \<Rightarrow> TNever | Some (opt, t) \<Rightarrow> t)"

text \<open>The value \<open>v\<close> has an entry at \<open>k\<close>, and the entry conforms to \<open>t\<close>.\<close>

definition has_member :: "'n val \<Rightarrow> string \<Rightarrow> ty \<Rightarrow> bool" where
  "has_member v k t = (case obj_get v k of None \<Rightarrow> False | Some x \<Rightarrow> conforms t x)"

section \<open>Type operators of the language\<close>

text \<open>
  A union type is flat, has no repeated member, and a literal type is absorbed by its
  primitive type when both are members (\<^verbatim>\<open>'a' | string\<close> is \<^verbatim>\<open>string\<close>).
\<close>

fun constituents :: "ty \<Rightarrow> ty list" where
  "constituents (TUnion ts) = concat (map constituents ts)"
| "constituents TNever = []"
| "constituents t = [t]"

definition absorbed :: "ty list \<Rightarrow> ty \<Rightarrow> bool" where
  "absorbed cs t =
     (case t of
        TStrLit _ \<Rightarrow> TString \<in> set cs
      | TBoolLit _ \<Rightarrow> TBoolean \<in> set cs
      | _ \<Rightarrow> False)"

definition union_ty :: "ty list \<Rightarrow> ty" where
  "union_ty ts =
     (let cs = concat (map constituents ts);
          rs = remdups (filter (\<lambda>t. \<not> absorbed cs t) cs)
      in case rs of [] \<Rightarrow> TNever | [t] \<Rightarrow> t | _ \<Rightarrow> TUnion rs)"

text \<open>The string literal members of a key type, and whether \<^verbatim>\<open>string\<close> is a member.\<close>

definition key_names :: "ty \<Rightarrow> string list" where
  "key_names K = concat (map (\<lambda>t. case t of TStrLit s \<Rightarrow> [s] | _ \<Rightarrow> []) (constituents K))"

definition has_string_key :: "ty \<Rightarrow> bool" where
  "has_string_key K = (TString \<in> set (constituents K))"

text \<open>
  \<^verbatim>\<open>T[number]\<close>: the element type of an array, the union of the element types of a tuple.
\<close>

fun index_number :: "ty \<Rightarrow> ty" where
  "index_number (TArray t) = t"
| "index_number (TTuple ts) = union_ty ts"
| "index_number _ = TNever"

text \<open>
  \<^verbatim>\<open>Record<K, T>\<close> is the mapped type \<^verbatim>\<open>{ [P in K]: T }\<close>: a required member for each
  literal in \<open>K\<close>, and a string index signature when \<^verbatim>\<open>string\<close> is in \<open>K\<close>.
\<close>

definition Record :: "ty \<Rightarrow> ty \<Rightarrow> ty" where
  "Record K T =
     TObj (map (\<lambda>P. (P, False, T)) (key_names K))
          (if has_string_key K then Some T else None)"

text \<open>
  \<^verbatim>\<open>V extends U ? X : Y\<close> with \<open>V\<close> a type parameter distributes over the members of
  \<open>V\<close> (\<^verbatim>\<open>boolean\<close> being \<^verbatim>\<open>true | false\<close>).  \<open>lit_extends\<close> is assignability between the
  literal and primitive types, which is all the declarations test.
\<close>

definition distribute :: "ty \<Rightarrow> ty list" where
  "distribute V =
     concat (map (\<lambda>c. if c = TBoolean then [TBoolLit True, TBoolLit False] else [c])
                 (constituents V))"

definition lit_extends :: "ty \<Rightarrow> ty \<Rightarrow> bool" where
  "lit_extends a U =
     (\<exists>c \<in> set (constituents U).
        a = c \<or> (case a of TStrLit _ \<Rightarrow> c = TString | TBoolLit _ \<Rightarrow> c = TBoolean | _ \<Rightarrow> False))"

definition conditional :: "ty \<Rightarrow> ty \<Rightarrow> (ty \<Rightarrow> ty) \<Rightarrow> (ty \<Rightarrow> ty) \<Rightarrow> ty" where
  "conditional V U X Y =
     union_ty (map (\<lambda>v. if lit_extends v U then X v else Y v) (distribute V))"

text \<open>
  The library types \<^verbatim>\<open>Exclude\<close>, \<^verbatim>\<open>Pick\<close> and \<^verbatim>\<open>Omit\<close>, and \<^verbatim>\<open>keyof\<close>:
  \<^verbatim>\<open>Exclude<T, U> = T extends U ? never : T\<close>,
  \<^verbatim>\<open>Pick<T, K> = { [P in K]: T[P] }\<close> (which keeps the optionality of each member),
  \<^verbatim>\<open>Omit<T, K> = Pick<T, Exclude<keyof T, K>>\<close>.
\<close>

definition keyof :: "ty \<Rightarrow> ty" where
  "keyof T =
     union_ty (map (\<lambda>p. TStrLit (fst p)) (members T)
               @ (case index_sig T of None \<Rightarrow> [] | Some _ \<Rightarrow> [TString]))"

definition Exclude :: "ty \<Rightarrow> ty \<Rightarrow> ty" where
  "Exclude T U = conditional T U (\<lambda>_. TNever) (\<lambda>t. t)"

definition Pick :: "ty \<Rightarrow> ty \<Rightarrow> ty" where
  "Pick T K =
     TObj (concat (map (\<lambda>P. case map_of (members T) P of
                               None \<Rightarrow> []
                             | Some (opt, t) \<Rightarrow> [(P, opt, t)])
                       (key_names K)))
          (if has_string_key K then index_sig T else None)"

definition Omit :: "ty \<Rightarrow> ty \<Rightarrow> ty" where
  "Omit T K = Pick T (Exclude (keyof T) K)"

section \<open>The declarations of \<^verbatim>\<open>types/color-scheme.ts\<close>\<close>

text \<open>\<^verbatim>\<open>export type Color = string | number\<close>\<close>

definition Color :: ty where
  "Color = union_ty [TString, TNumber]"

text \<open>\<^verbatim>\<open>export interface StaticColor { name: string; value: Color; blend?: boolean }\<close>\<close>

definition StaticColor :: ty where
  "StaticColor =
     TObj [(''name'', False, TString), (''value'', False, Color), (''blend'', True, TBoolean)]
          None"

text \<open>
  Modelled from the spec: \<^verbatim>\<open>COLOR_SCHEME_KEYS\<close> is imported from \<^verbatim>\<open>../constants\<close>, which
  is not among the sources.  The specification has a fixed, enumerated set of canonical
  role names, from which the suffixed schemes get one member each (as the example on
  \<open>SuffixedColorScheme\<close> below has it too), so the constant is a constant tuple of names
  and \<^verbatim>\<open>typeof COLOR_SCHEME_KEYS\<close> the tuple of their literal types.  The names are the
  parameter \<open>keys\<close>.
\<close>

definition typeof_COLOR_SCHEME_KEYS :: "string list \<Rightarrow> ty" where
  "typeof_COLOR_SCHEME_KEYS keys = TTuple (map TStrLit keys)"

text \<open>\<^verbatim>\<open>export type ColorKey = (typeof COLOR_SCHEME_KEYS)[number]\<close>\<close>

definition ColorKey :: "string list \<Rightarrow> ty" where
  "ColorKey keys = index_number (typeof_COLOR_SCHEME_KEYS keys)"

text \<open>\<^verbatim>\<open>export interface ColorScheme extends Record<ColorKey | string, number> {}\<close>\<close>

definition ColorScheme :: "string list \<Rightarrow> ty" where
  "ColorScheme keys = Record (union_ty [ColorKey keys, TString]) TNumber"

text \<open>
  \<^verbatim>\<open>export type CustomColorScheme<T = Record<string, string | number>> =
      T & { [key: string]: number }\<close>
\<close>

definition CustomColorScheme :: "ty \<Rightarrow> ty" where
  "CustomColorScheme T = TInter [T, TObj [] (Some TNumber)]"

text \<open>The default of the type parameter, \<^verbatim>\<open>Record<string, string | number>\<close>.\<close>

definition CustomColorScheme_default :: ty where
  "CustomColorScheme_default = Record TString (union_ty [TString, TNumber])"

text \<open>
  \<^verbatim>\<open>type SuffixedColorScheme<Suffix extends string> =
      { [K in ColorKey as `${K}${Suffix}`]: number }\<close>

  with the example \<^verbatim>\<open>SuffixedColorScheme<'Light'>; // Creates { primaryLight: number, ... }\<close>.
  The mapped type runs over the members of \<open>ColorKey\<close>; the template literal type of two
  literals is their concatenation.
\<close>

definition SuffixedColorScheme :: "string list \<Rightarrow> string \<Rightarrow> ty" where
  "SuffixedColorScheme keys Suffix =
     TObj (map (\<lambda>K. (K @ Suffix, False, TNumber)) (key_names (ColorKey keys))) None"

definition LightColorScheme :: "string list \<Rightarrow> ty" where
  "LightColorScheme keys = SuffixedColorScheme keys ''Light''"

definition DarkColorScheme :: "string list \<Rightarrow> ty" where
  "DarkColorScheme keys = SuffixedColorScheme keys ''Dark''"

text \<open>
  \<^verbatim>\<open>export type ColorSchemeReturnType<V extends boolean> = V extends true
      ? ColorScheme & LightColorScheme & DarkColorScheme
      : ColorScheme\<close>
\<close>

definition ColorSchemeReturnType :: "string list \<Rightarrow> ty \<Rightarrow> ty" where
  "ColorSchemeReturnType keys V =
     conditional V (TBoolLit True)
       (\<lambda>_. TInter [ColorScheme keys, LightColorScheme keys, DarkColorScheme keys])
       (\<lambda>_. ColorScheme keys)"

text \<open>
  \<^verbatim>\<open>export interface ColorSchemeOptions<V extends boolean = false> {
      dark?: boolean;
      brightnessVariants?: V;
      paletteTones?: false | number[];
      modifyColorScheme?: <T extends ColorSchemeReturnType<V>>(colorScheme: T) => T;
  }\<close>
\<close>

definition ColorSchemeOptions :: "string list \<Rightarrow> ty \<Rightarrow> ty" where
  "ColorSchemeOptions keys V =
     TObj [(''dark'', True, TBoolean),
           (''brightnessVariants'', True, V),
           (''paletteTones'', True, union_ty [TBoolLit False, TArray TNumber]),
           (''modifyColorScheme'', True, TEndo (ColorSchemeReturnType keys V))]
          None"

section \<open>The declarations of \<^verbatim>\<open>types/theme.ts\<close>\<close>

text \<open>
  \<^verbatim>\<open>Variant\<close>, \<^verbatim>\<open>DynamicScheme\<close>, \<^verbatim>\<open>TonalPalette\<close> and \<^verbatim>\<open>CustomColorGroup\<close> are imported
  from outside these sources (\<^verbatim>\<open>../core\<close> and \<^verbatim>\<open>@material/material-color-utilities\<close>);
  they are parameters of \<open>Theme\<close>.
\<close>

definition Theme :: "ty \<Rightarrow> ty \<Rightarrow> ty \<Rightarrow> ty \<Rightarrow> ty" where
  "Theme Variant DynamicScheme TonalPalette CustomColorGroup =
     TObj [(''source'', False, TNumber),
           (''contrastLevel'', False, TNumber),
           (''variant'', False, Variant),
           (''schemes'', False,
              TObj [(''light'', False, DynamicScheme),
                    (''dark'', False, DynamicScheme)] None),
           (''palettes'', False,
              TObj [(''primary'', False, TonalPalette),
                    (''secondary'', False, TonalPalette),
                    (''tertiary'', False, TonalPalette),
                    (''neutral'', False, TonalPalette),
                    (''neutralVariant'', False, TonalPalette),
                    (''error'', False, TonalPalette)] None),
           (''customColors'', False, TArray CustomColorGroup)]
          None"

text \<open>
  \<^verbatim>\<open>export type ThemeOptions = Omit<SchemeOptions, 'isDark'> & { staticColors?: StaticColor[] }\<close>

  \<^verbatim>\<open>SchemeOptions\<close> is imported from \<^verbatim>\<open>./scheme.ts\<close>, which is not among the sources; it
  is a parameter.
\<close>

definition ThemeOptions :: "ty \<Rightarrow> ty" where
  "ThemeOptions SchemeOptions =
     TInter [Omit SchemeOptions (TStrLit ''isDark''),
             TObj [(''staticColors'', True, TArray StaticColor)] None]"

text \<open>
  The specification's description of \<open>ThemeOptions\<close>, written from its words and not from
  the declaration: the scheme options (an interface with the members \<open>ps\<close>) minus the
  dark-mode flag, plus an optional list of static colors.
\<close>

definition ThemeOptions_spec :: "(string \<times> bool \<times> ty) list \<Rightarrow> ty" where
  "ThemeOptions_spec ps =
     TObj (filter (\<lambda>p. fst p \<noteq> ''isDark'') ps
           @ [(''staticColors'', True, TArray StaticColor)]) None"

section \<open>Facts about the type operators\<close>

text \<open>The union of string literal types: its members are the literals, without repetition.\<close>

lemma constituents_literals:
  "concat (map constituents (map TStrLit ks)) = map TStrLit ks"
  by (induction ks) simp_all

lemma remdups_literals: "remdups (map TStrLit ks) = map TStrLit (remdups ks)"
  by (induction ks) auto

lemma not_absorbed_literals:
  "filter (\<lambda>t. \<not> absorbed (map TStrLit ks) t) (map TStrLit ks) = map TStrLit ks"
  by (rule filter_True) (auto simp: absorbed_def)

lemma constituents_case_list:
  "constituents (case rs of [] \<Rightarrow> TNever | [t] \<Rightarrow> t | _ \<Rightarrow> TUnion rs)
     = concat (map constituents rs)"
  by (cases rs rule: remdups_adj.cases) simp_all

lemma conforms_union_of:
  "conforms (case rs of [] \<Rightarrow> TNever | [t] \<Rightarrow> t | _ \<Rightarrow> TUnion rs) v
     = (\<exists>t \<in> set rs. conforms t v)"
  by (cases rs rule: remdups_adj.cases) simp_all

lemma key_names_literals:
  "concat (map (\<lambda>t. case t of TStrLit s \<Rightarrow> [s] | _ \<Rightarrow> []) (map TStrLit ks)) = ks"
  by (induction ks) simp_all

lemma union_ty_literals:
  "union_ty (map TStrLit ks) =
     (case map TStrLit (remdups ks) of
        [] \<Rightarrow> TNever | [t] \<Rightarrow> t | _ \<Rightarrow> TUnion (map TStrLit (remdups ks)))"
  unfolding union_ty_def Let_def
  by (simp only: constituents_literals not_absorbed_literals remdups_literals)

lemma constituents_union_literals:
  "constituents (union_ty (map TStrLit ks)) = map TStrLit (remdups ks)"
  by (simp only: union_ty_literals constituents_case_list constituents_literals)

lemma key_names_union_literals: "key_names (union_ty (map TStrLit ks)) = remdups ks"
  by (simp only: key_names_def constituents_union_literals key_names_literals)

lemma conforms_union_literals:
  "conforms (union_ty (map TStrLit ks)) v = (\<exists>s \<in> set ks. v = VStr s)"
  by (simp only: union_ty_literals conforms_union_of) auto

text \<open>\<open>ColorKey\<close> is such a union, and \<^verbatim>\<open>ColorKey | string\<close> is \<^verbatim>\<open>string\<close>.\<close>

lemma ColorKey_literals: "ColorKey keys = union_ty (map TStrLit keys)"
  by (simp add: ColorKey_def typeof_COLOR_SCHEME_KEYS_def)

lemma constituents_ColorKey: "constituents (ColorKey keys) = map TStrLit (remdups keys)"
  by (simp only: ColorKey_literals constituents_union_literals)

lemma key_names_ColorKey: "key_names (ColorKey keys) = remdups keys"
  by (simp only: ColorKey_literals key_names_union_literals)

lemma conforms_ColorKey: "conforms (ColorKey keys) v = (\<exists>s \<in> set keys. v = VStr s)"
  by (simp only: ColorKey_literals conforms_union_literals)

lemma absorbed_all_literals:
  "filter (\<lambda>t. \<not> absorbed (map TStrLit ks @ [TString]) t) (map TStrLit ks @ [TString])
     = [TString]"
  by (induction ks) (auto simp: absorbed_def)

lemma ColorKey_or_string: "union_ty [ColorKey keys, TString] = TString"
proof -
  have "concat (map constituents [ColorKey keys, TString])
      = map TStrLit (remdups keys) @ [TString]"
    by (simp add: constituents_ColorKey)
  then show ?thesis
    by (simp only: union_ty_def Let_def absorbed_all_literals) simp
qed

text \<open>\<^verbatim>\<open>keyof\<close>, \<^verbatim>\<open>Exclude\<close>, \<^verbatim>\<open>Pick\<close> and \<^verbatim>\<open>Omit\<close> on an interface.\<close>

lemma keyof_members:
  "constituents (keyof (TObj ps None)) = map TStrLit (remdups (map fst ps))"
proof -
  have "map (\<lambda>p. TStrLit (fst p)) ps = map TStrLit (map fst ps)"
    by simp
  then have "keyof (TObj ps None) = union_ty (map TStrLit (map fst ps))"
    by (simp add: keyof_def comp_def)
  then show ?thesis
    by (simp only: constituents_union_literals)
qed

lemma distribute_literals: "distribute T = constituents T" if "constituents T = map TStrLit ks"
  unfolding distribute_def that by (induction ks) simp_all

lemma exclude_map:
  "map (\<lambda>v. if lit_extends v (TStrLit d) then TNever else v) (map TStrLit ks)
     = map (\<lambda>s. if s = d then TNever else TStrLit s) ks"
  by (induction ks) (simp_all add: lit_extends_def)

lemma exclude_constituents:
  "concat (map constituents (map (\<lambda>s. if s = d then TNever else TStrLit s) ks))
     = map TStrLit (filter (\<lambda>s. s \<noteq> d) ks)"
  by (induction ks) simp_all

lemma union_ty_cong: "concat (map constituents ts) = concat (map constituents us) \<Longrightarrow> union_ty ts = union_ty us"
  by (simp add: union_ty_def)

lemma key_names_Exclude_keyof:
  "key_names (Exclude (keyof (TObj ps None)) (TStrLit d)) = filter (\<lambda>s. s \<noteq> d) (remdups (map fst ps))
   \<and> \<not> has_string_key (Exclude (keyof (TObj ps None)) (TStrLit d))"
proof (intro conjI)
  let ?ks = "remdups (map fst ps)"
  have "Exclude (keyof (TObj ps None)) (TStrLit d)
      = union_ty (map (\<lambda>s. if s = d then TNever else TStrLit s) ?ks)"
    by (simp only: Exclude_def conditional_def distribute_literals [OF keyof_members]
        keyof_members exclude_map)
  also have "\<dots> = union_ty (map TStrLit (filter (\<lambda>s. s \<noteq> d) ?ks))"
    by (rule union_ty_cong) (simp only: exclude_constituents constituents_literals)
  finally have e: "Exclude (keyof (TObj ps None)) (TStrLit d)
      = union_ty (map TStrLit (filter (\<lambda>s. s \<noteq> d) ?ks))" .
  have "distinct (filter (\<lambda>s. s \<noteq> d) ?ks)" by simp
  then have r: "remdups (filter (\<lambda>s. s \<noteq> d) ?ks) = filter (\<lambda>s. s \<noteq> d) ?ks"
    by (rule distinct_remdups_id)
  show "key_names (Exclude (keyof (TObj ps None)) (TStrLit d)) = filter (\<lambda>s. s \<noteq> d) ?ks"
    by (simp only: e key_names_union_literals r)
  show "\<not> has_string_key (Exclude (keyof (TObj ps None)) (TStrLit d))"
    by (simp only: e has_string_key_def constituents_union_literals) auto
qed

lemma pick_members:
  assumes "distinct (map fst ps)" and "set qs \<subseteq> set ps"
  shows "concat (map (\<lambda>P. case map_of ps P of None \<Rightarrow> [] | Some (opt, t) \<Rightarrow> [(P, opt, t)])
                     (filter Q (map fst qs)))
         = filter (\<lambda>p. Q (fst p)) qs"
  using assms(2)
proof (induction qs)
  case Nil
  show ?case by simp
next
  case (Cons q qs)
  obtain k opt t where q: "q = (k, opt, t)" by (cases q)
  with Cons.prems have "(k, opt, t) \<in> set ps" by simp
  with assms(1) have "map_of ps k = Some (opt, t)" by simp
  with Cons q show ?case by simp
qed

lemma Omit_members:
  assumes "distinct (map fst ps)"
  shows "Omit (TObj ps None) (TStrLit d) = TObj (filter (\<lambda>p. fst p \<noteq> d) ps) None"
proof -
  from assms have "remdups (map fst ps) = map fst ps"
    by (rule distinct_remdups_id)
  then have "key_names (Exclude (keyof (TObj ps None)) (TStrLit d)) = filter (\<lambda>s. s \<noteq> d) (map fst ps)"
    by (simp only: key_names_Exclude_keyof)
  then show ?thesis
    by (simp add: Omit_def Pick_def key_names_Exclude_keyof pick_members [OF assms])
qed

lemma conforms_TObj_append:
  "conforms (TInter [TObj ps None, TObj qs None]) v = conforms (TObj (ps @ qs) None) v"
  by (cases v) (simp_all add: ball_Un)

section \<open>Facts about the declared types\<close>

lemma ColorScheme_eq: "ColorScheme keys = TObj [] (Some TNumber)"
  by (simp add: ColorScheme_def ColorKey_or_string Record_def key_names_def has_string_key_def)


lemma SuffixedColorScheme_eq:
  "SuffixedColorScheme keys s = TObj (map (\<lambda>K. (K @ s, False, TNumber)) (remdups keys)) None"
  by (simp add: SuffixedColorScheme_def key_names_ColorKey)

lemma conforms_Suffixed:
  "conforms (SuffixedColorScheme keys s) v =
     (\<exists>m. v = VObj m \<and> (\<forall>k \<in> set keys. \<exists>x. map_of m (k @ s) = Some x \<and> is_num x))"
  by (cases v) (auto simp: SuffixedColorScheme_eq split: option.splits)

lemma members_Suffixed:
  "members (SuffixedColorScheme keys s) = map (\<lambda>K. (K @ s, False, TNumber)) (remdups keys)"
  by (simp add: SuffixedColorScheme_eq)

lemma count_in_distinct:
  "distinct xs \<Longrightarrow> x \<in> set xs \<Longrightarrow> length (filter (\<lambda>y. y = x) xs) = 1"
  by (induction xs) (auto simp: filter_empty_conv)

lemma map_of_suffixed:
  "k \<in> set ks \<Longrightarrow> map_of (map (\<lambda>K. (K @ s, False, TNumber)) ks) (k @ s) = Some (False, TNumber)"
  by (induction ks) auto

lemma ColorSchemeReturnType_lit:
  "ColorSchemeReturnType keys (TBoolLit V) =
     (if V then TInter [ColorScheme keys, LightColorScheme keys, DarkColorScheme keys]
      else ColorScheme keys)"
proof -
  have d: "distribute (TBoolLit V) = [TBoolLit V]"
    by (simp add: distribute_def)
  have e: "lit_extends (TBoolLit V) (TBoolLit True) = V"
    by (simp add: lit_extends_def)
  have u1: "union_ty [TInter ts] = TInter ts" for ts
    by (simp add: union_ty_def absorbed_def)
  have u2: "union_ty [ColorScheme keys] = ColorScheme keys"
    by (simp add: ColorScheme_eq union_ty_def absorbed_def)
  show ?thesis
    by (simp add: ColorSchemeReturnType_def conditional_def d e u1 u2)
qed

lemma default_T_eq: "CustomColorScheme_default = TObj [] (Some (TUnion [TString, TNumber]))"
  by (simp add: CustomColorScheme_default_def Record_def key_names_def has_string_key_def
      union_ty_def absorbed_def)

lemma num_not_str: "is_num x \<Longrightarrow> \<not> is_str x"
  by (cases x) simp_all

lemma conforms_Custom_default:
  "conforms (CustomColorScheme CustomColorScheme_default) v
     = (\<exists>m. v = VObj m \<and> (\<forall>e \<in> set m. is_num (snd e)))"
  by (cases v) (auto simp: CustomColorScheme_def default_T_eq)

lemma conforms_Custom:
  "conforms (CustomColorScheme T) v
     = (conforms T v \<and> (\<exists>m. v = VObj m \<and> (\<forall>e \<in> set m. is_num (snd e))))"
  by (cases v) (auto simp: CustomColorScheme_def)

lemma required_members_present:
  assumes "conforms T v" and "p \<in> set (members T)" and "\<not> fst (snd p)"
  shows "\<exists>x. obj_get v (fst p) = Some x \<and> conforms (snd (snd p)) x"
proof (cases T)
  case (TObj ps idx)
  with assms(1) obtain m where v: "v = VObj m"
    by (cases v) simp_all
  obtain k opt t where p: "p = (k, opt, t)"
    by (cases p)
  from assms(1) TObj v have "\<forall>p \<in> set ps. case p of (k, opt, t) \<Rightarrow>
      (case map_of m k of None \<Rightarrow> opt | Some x \<Rightarrow> (opt \<and> x = VUndefined) \<or> conforms t x)"
    by simp
  moreover from assms(2) TObj p have "(k, opt, t) \<in> set ps"
    by simp
  ultimately have "case map_of m k of None \<Rightarrow> opt | Some x \<Rightarrow> (opt \<and> x = VUndefined) \<or> conforms t x"
    by blast
  with assms(3) p v show ?thesis
    by (cases "map_of m k") simp_all
qed (use assms in simp_all)

lemma map_of_append_other:
  "k' \<noteq> k \<Longrightarrow> map_of (m @ [(k, x)]) k' = map_of m k'"
  by (induction m) auto

lemma conforms_TObj_add_entry:
  assumes "conforms (TObj ps idx) (VObj m)"
    and "k \<notin> fst ` set ps"
    and "\<forall>t. idx = Some t \<longrightarrow> conforms t x"
  shows "conforms (TObj ps idx) (VObj (m @ [(k, x)]))"
proof -
  have same: "map_of (m @ [(k, x)]) k' = map_of m k'" if "(k', opt, t) \<in> set ps" for k' opt t
  proof -
    from that assms(2) have "k' \<noteq> k" by force
    then show ?thesis by (rule map_of_append_other)
  qed
  have mem: "\<forall>p \<in> set ps. case p of (k', opt, t) \<Rightarrow>
      (case map_of (m @ [(k, x)]) k' of None \<Rightarrow> opt
       | Some y \<Rightarrow> (opt \<and> y = VUndefined) \<or> conforms t y)"
  proof
    fix p assume p: "p \<in> set ps"
    obtain k' opt t where e: "p = (k', opt, t)" by (cases p)
    from assms(1) p e have "case map_of m k' of None \<Rightarrow> opt
       | Some y \<Rightarrow> (opt \<and> y = VUndefined) \<or> conforms t y"
      by auto
    with same [of k' opt t] p e show "case p of (k', opt, t) \<Rightarrow>
      (case map_of (m @ [(k, x)]) k' of None \<Rightarrow> opt
       | Some y \<Rightarrow> (opt \<and> y = VUndefined) \<or> conforms t y)"
      by (simp only: e prod.case)
  qed
  have idx: "case idx of None \<Rightarrow> True | Some t \<Rightarrow> (\<forall>e \<in> set (m @ [(k, x)]). conforms t (snd e))"
    using assms(1,3) by (cases idx) auto
  from mem idx show ?thesis
    by (simp only: conforms.simps val.case simp_thms)
qed

lemma paletteTones_ty: "union_ty [TBoolLit False, TArray TNumber] = TUnion [TBoolLit False, TArray TNumber]"
  by (simp add: union_ty_def absorbed_def)

lemma conforms_number_array:
  "conforms (TArray TNumber) x = (\<exists>xs. x = VArr xs \<and> (\<forall>y \<in> set xs. is_num y))"
  by (cases x) simp_all

lemma conforms_required_members:
  "conforms (TObj (map (\<lambda>(k, t). (k, False, t)) kts) None) v
     = (is_obj v \<and> (\<forall>(k, t) \<in> set kts. has_member v k t))"
  by (cases v) (auto simp: has_member_def split: option.splits)

section \<open>The claims\<close>

text \<open>
  C1.  For each boolean flag \<open>V\<close>, \<^verbatim>\<open>ColorSchemeReturnType<V>\<close> is the intersection of
  \<open>ColorScheme\<close>, \<open>LightColorScheme\<close> and \<open>DarkColorScheme\<close> when \<open>V\<close> is \<^verbatim>\<open>true\<close>, and
  \<open>ColorScheme\<close> alone when \<open>V\<close> is \<^verbatim>\<open>false\<close>: the same type, hence the same values.
\<close>

theorem ColorSchemeReturnType_flag:
  "ColorSchemeReturnType keys (TBoolLit V) =
     (if V then TInter [ColorScheme keys, LightColorScheme keys, DarkColorScheme keys]
      else ColorScheme keys)
   \<and> (conforms (ColorSchemeReturnType keys (TBoolLit V)) v \<longleftrightarrow>
        conforms (ColorScheme keys) v
        \<and> (V \<longrightarrow> conforms (LightColorScheme keys) v \<and> conforms (DarkColorScheme keys) v))"
  by (simp add: ColorSchemeReturnType_lit)

theorem ColorSchemeReturnType_flag_witness:
  "conforms (ColorSchemeReturnType [''primary''] (TBoolLit True))
     (VObj [(''primary'', VNum (1::int)), (''primaryLight'', VNum 2), (''primaryDark'', VNum 3)])
   \<and> \<not> conforms (ColorSchemeReturnType [''primary''] (TBoolLit True))
        (VObj [(''primary'', VNum (1::int)), (''primaryLight'', VNum 2)])
   \<and> conforms (ColorSchemeReturnType [''primary''] (TBoolLit False))
        (VObj [(''primary'', VNum (1::int)), (''primaryLight'', VNum 2)])"
proof -
  let ?full = "VObj [(''primary'', VNum (1::int)), (''primaryLight'', VNum 2), (''primaryDark'', VNum 3)]"
  let ?part = "VObj [(''primary'', VNum (1::int)), (''primaryLight'', VNum 2)]"
  have base: "conforms (ColorScheme [''primary'']) ?full" "conforms (ColorScheme [''primary'']) ?part"
    by (simp_all add: ColorScheme_eq)
  have light: "conforms (LightColorScheme [''primary'']) ?full"
    by (simp add: LightColorScheme_def SuffixedColorScheme_eq)
  have dark: "conforms (DarkColorScheme [''primary'']) ?full"
    "\<not> conforms (DarkColorScheme [''primary'']) ?part"
    by (simp_all add: DarkColorScheme_def SuffixedColorScheme_eq)
  show ?thesis
    using ColorSchemeReturnType_flag [of "[''primary'']" True ?full]
      ColorSchemeReturnType_flag [of "[''primary'']" True ?part]
      ColorSchemeReturnType_flag [of "[''primary'']" False ?part]
      base light dark
    by simp
qed




text \<open>
  C3.  The claim is that every string is a \<open>ColorKey\<close> value, as the comment on the
  declaration says too.  The declared type is the union of the literal types of the
  canonical names only: \<^verbatim>\<open>'primary'\<close> is a \<open>ColorKey\<close> of the keys \<^verbatim>\<open>primary\<close>, \<^verbatim>\<open>secondary\<close>,
  and \<^verbatim>\<open>'brand'\<close> is not.
\<close>

theorem ColorKey_rejects_other_string:
  "conforms (ColorKey [''primary'', ''secondary'']) (VStr ''primary'' :: int val)
   \<and> \<not> conforms (ColorKey [''primary'', ''secondary'']) (VStr ''brand'' :: int val)"
  by (simp add: conforms_ColorKey)

text \<open>
  C4.  For every canonical key \<open>k\<close> and each suffix \<^verbatim>\<open>Light\<close> / \<^verbatim>\<open>Dark\<close>, the suffixed scheme
  type declares exactly one member named \<open>k\<close> followed by the suffix; the member is required
  and of type number; the type declares no other member and no index signature, so it has
  one member for each canonical key; and every value of the type has a number there.
\<close>

theorem SuffixedColorScheme_one_key_per_base:
  assumes "(Suffix, T) \<in> {(''Light'', LightColorScheme keys), (''Dark'', DarkColorScheme keys)}"
    and "k \<in> set keys"
  shows "length (filter (\<lambda>p. fst p = k @ Suffix) (members T)) = 1
    \<and> map_of (members T) (k @ Suffix) = Some (False, TNumber)
    \<and> fst ` set (members T) = (\<lambda>K. K @ Suffix) ` set keys
    \<and> length (members T) = card (set keys)
    \<and> index_sig T = None
    \<and> (conforms T v \<longrightarrow> (\<exists>x. obj_get v (k @ Suffix) = Some x \<and> is_num x))"
proof -
  from assms(1) have T: "T = SuffixedColorScheme keys Suffix"
    by (auto simp: LightColorScheme_def DarkColorScheme_def)
  have k: "k \<in> set (remdups keys)" using assms(2) by simp
  have "filter (\<lambda>p. fst p = k @ Suffix) (members T)
      = map (\<lambda>K. (K @ Suffix, False, TNumber)) (filter (\<lambda>K. K = k) (remdups keys))"
    by (simp add: T members_Suffixed filter_map o_def)
  then have one: "length (filter (\<lambda>p. fst p = k @ Suffix) (members T)) = 1"
    using count_in_distinct [OF distinct_remdups k] by simp
  have look: "map_of (members T) (k @ Suffix) = Some (False, TNumber)"
    unfolding T members_Suffixed using k by (rule map_of_suffixed)
  have names: "fst ` set (members T) = (\<lambda>K. K @ Suffix) ` set keys"
    by (auto simp: T members_Suffixed image_iff)
  have len: "length (members T) = card (set keys)"
    by (simp add: T members_Suffixed length_remdups_card_conv)
  have idx: "index_sig T = None"
    by (simp add: T SuffixedColorScheme_eq)
  have val: "conforms T v \<longrightarrow> (\<exists>x. obj_get v (k @ Suffix) = Some x \<and> is_num x)"
    using assms(2) by (auto simp: T conforms_Suffixed)
  from one look names len idx val show ?thesis by blast
qed

theorem SuffixedColorScheme_one_key_per_base_witness:
  "(''Light'', LightColorScheme [''primary'', ''secondary''])
      \<in> {(''Light'', LightColorScheme [''primary'', ''secondary'']),
          (''Dark'', DarkColorScheme [''primary'', ''secondary''])}
   \<and> ''primary'' \<in> set [''primary'', ''secondary'']
   \<and> length (filter (\<lambda>p. fst p = ''primaryLight'')
         (members (LightColorScheme [''primary'', ''secondary'']))) = 1
   \<and> map fst (members (LightColorScheme [''primary'', ''secondary'']))
       = [''primaryLight'', ''secondaryLight'']
   \<and> map fst (members (DarkColorScheme [''primary'', ''secondary'']))
       = [''primaryDark'', ''secondaryDark'']"
  using SuffixedColorScheme_one_key_per_base
    [of "''Light''" "LightColorScheme [''primary'', ''secondary'']" "[''primary'', ''secondary'']"
        "''primary''"]
  by (simp add: LightColorScheme_def DarkColorScheme_def SuffixedColorScheme_eq)

text \<open>
  C5.  A value of \<^verbatim>\<open>CustomColorScheme<T>\<close> is a value of \<open>T\<close>: every required member of \<open>T\<close>
  is present with its declared type.  All its entries are numbers, and a further numeric
  entry under a new key leaves the required members of \<open>T\<close> as they were; when the key is
  not a member of the object type \<open>T\<close> and the index signature of \<open>T\<close>, if it has one,
  admits numbers (as that of the default \<^verbatim>\<open>Record<string, string | number>\<close> does), the
  extended value is again a \<^verbatim>\<open>CustomColorScheme<T>\<close>.
\<close>

theorem CustomColorScheme_keeps_T:
  assumes "conforms (CustomColorScheme T) (v :: 'n val)"
  shows "conforms T v
    \<and> (\<forall>p \<in> set (members T). \<not> fst (snd p) \<longrightarrow>
          (\<exists>x. obj_get v (fst p) = Some x \<and> conforms (snd (snd p)) x))
    \<and> (\<exists>m. v = VObj m \<and> (\<forall>e \<in> set m. is_num (snd e)) \<and>
          (\<forall>k n. k \<notin> fst ` set m \<longrightarrow>
             (\<forall>p \<in> set (members T). \<not> fst (snd p) \<longrightarrow>
                (\<exists>x. obj_get (VObj (m @ [(k, VNum n)])) (fst p) = Some x
                     \<and> conforms (snd (snd p)) x))
             \<and> (k \<notin> fst ` set (members T) \<longrightarrow>
                  (\<exists>ps idx. T = TObj ps idx \<and> (\<forall>t. idx = Some t \<longrightarrow> conforms t (VNum n))) \<longrightarrow>
                  conforms (CustomColorScheme T) (VObj (m @ [(k, VNum n)])))))"
proof -
  from assms have T: "conforms T v"
    and "\<exists>m. v = VObj m \<and> (\<forall>e \<in> set m. is_num (snd e))"
    by (simp_all add: conforms_Custom)
  then obtain m where v: "v = VObj m" and nums: "\<forall>e \<in> set m. is_num (snd e)"
    by blast
  have req: "\<forall>p \<in> set (members T). \<not> fst (snd p) \<longrightarrow>
          (\<exists>x. obj_get v (fst p) = Some x \<and> conforms (snd (snd p)) x)"
    using required_members_present [OF T] by blast
  have req': "\<forall>p \<in> set (members T). \<not> fst (snd p) \<longrightarrow>
      (\<exists>x. obj_get (VObj (m @ [(k, VNum n)])) (fst p) = Some x \<and> conforms (snd (snd p)) x)"
    if fresh: "k \<notin> fst ` set m" for k n
  proof (intro ballI impI)
    fix p assume p: "p \<in> set (members T)" "\<not> fst (snd p)"
    from required_members_present [OF T p] obtain x
      where x: "map_of m (fst p) = Some x" "conforms (snd (snd p)) x"
      by (auto simp: v)
    from x(1) have "(fst p, x) \<in> set m"
      by (rule map_of_SomeD)
    then have "fst p \<in> fst ` set m"
      by force
    with fresh have "fst p \<noteq> k" by auto
    then have "map_of (m @ [(k, VNum n)]) (fst p) = map_of m (fst p)"
      by (rule map_of_append_other)
    with x show "\<exists>x. obj_get (VObj (m @ [(k, VNum n)])) (fst p) = Some x \<and> conforms (snd (snd p)) x"
      by simp
  qed
  have ext: "conforms (CustomColorScheme T) (VObj (m @ [(k, VNum n)]))"
    if new: "k \<notin> fst ` set (members T)"
      and obj: "\<exists>ps idx. T = TObj ps idx \<and> (\<forall>t. idx = Some t \<longrightarrow> conforms t (VNum n))"
    for k n
  proof -
    from obj obtain ps idx where t: "T = TObj ps idx"
      and i: "\<forall>t. idx = Some t \<longrightarrow> conforms t (VNum n)"
      by blast
    from T t v have c: "conforms (TObj ps idx) (VObj m)" by simp
    from new t have k: "k \<notin> fst ` set ps" by simp
    have "conforms T (VObj (m @ [(k, VNum n)]))"
      unfolding t by (rule conforms_TObj_add_entry [OF c k i])
    moreover have "\<forall>e \<in> set (m @ [(k, VNum n)]). is_num (snd e)"
      using nums by simp
    ultimately show ?thesis
      by (simp only: conforms_Custom) blast
  qed
  have third: "\<exists>m. v = VObj m \<and> (\<forall>e \<in> set m. is_num (snd e)) \<and>
          (\<forall>k n. k \<notin> fst ` set m \<longrightarrow>
             (\<forall>p \<in> set (members T). \<not> fst (snd p) \<longrightarrow>
                (\<exists>x. obj_get (VObj (m @ [(k, VNum n)])) (fst p) = Some x
                     \<and> conforms (snd (snd p)) x))
             \<and> (k \<notin> fst ` set (members T) \<longrightarrow>
                  (\<exists>ps idx. T = TObj ps idx \<and> (\<forall>t. idx = Some t \<longrightarrow> conforms t (VNum n))) \<longrightarrow>
                  conforms (CustomColorScheme T) (VObj (m @ [(k, VNum n)]))))"
  proof (intro exI [of _ m] conjI allI impI)
    show "v = VObj m" by (rule v)
    show "\<forall>e \<in> set m. is_num (snd e)" by (rule nums)
  next
    fix k n assume "k \<notin> fst ` set m"
    then show "\<forall>p \<in> set (members T). \<not> fst (snd p) \<longrightarrow>
                (\<exists>x. obj_get (VObj (m @ [(k, VNum n)])) (fst p) = Some x
                     \<and> conforms (snd (snd p)) x)"
      by (rule req')
  next
    fix k and n :: 'n
    assume "k \<notin> fst ` set (members T)"
      and "\<exists>ps idx. T = TObj ps idx \<and> (\<forall>t. idx = Some t \<longrightarrow> conforms t (VNum n))"
    then show "conforms (CustomColorScheme T) (VObj (m @ [(k, VNum n)]))"
      by (rule ext)
  qed
  from T req third show ?thesis
    by (intro conjI)
qed

theorem CustomColorScheme_keeps_T_witness:
  "conforms (CustomColorScheme (TObj [(''brand'', False, TNumber), (''label'', True, TString)] None))
     (VObj [(''brand'', VNum (1::int))])
   \<and> conforms (TObj [(''brand'', False, TNumber), (''label'', True, TString)] None)
     (VObj [(''brand'', VNum (1::int))])
   \<and> conforms (CustomColorScheme (TObj [(''brand'', False, TNumber), (''label'', True, TString)] None))
     (VObj ([(''brand'', VNum (1::int))] @ [(''accent'', VNum 2)]))
   \<and> conforms (CustomColorScheme CustomColorScheme_default)
     (VObj ([(''brand'', VNum (1::int))] @ [(''accent'', VNum 2)]))"
proof -
  let ?T = "TObj [(''brand'', False, TNumber), (''label'', True, TString)] None"
  let ?v = "VObj [(''brand'', VNum (1::int))]"
  have c: "conforms (CustomColorScheme ?T) ?v"
    by (simp add: CustomColorScheme_def)
  have d: "conforms (CustomColorScheme CustomColorScheme_default) ?v"
    by (simp add: CustomColorScheme_def default_T_eq)
  from CustomColorScheme_keeps_T [OF c]
  have "conforms ?T ?v"
    and "\<forall>k n. k \<notin> fst ` set [(''brand'', VNum (1::int))] \<longrightarrow>
          k \<notin> fst ` set (members ?T) \<longrightarrow>
          (\<exists>ps idx. ?T = TObj ps idx \<and> (\<forall>t. idx = Some t \<longrightarrow> conforms t (VNum n))) \<longrightarrow>
          conforms (CustomColorScheme ?T) (VObj ([(''brand'', VNum (1::int))] @ [(k, VNum n)]))"
    by simp_all
  then have 1: "conforms ?T ?v"
    and 2: "conforms (CustomColorScheme ?T) (VObj ([(''brand'', VNum (1::int))] @ [(''accent'', VNum 2)]))"
    by simp_all
  from CustomColorScheme_keeps_T [OF d]
  have "\<forall>k n. k \<notin> fst ` set [(''brand'', VNum (1::int))] \<longrightarrow>
          k \<notin> fst ` set (members CustomColorScheme_default) \<longrightarrow>
          (\<exists>ps idx. CustomColorScheme_default = TObj ps idx
              \<and> (\<forall>t. idx = Some t \<longrightarrow> conforms t (VNum n))) \<longrightarrow>
          conforms (CustomColorScheme CustomColorScheme_default)
            (VObj ([(''brand'', VNum (1::int))] @ [(k, VNum n)]))"
    by simp
  then have 3: "conforms (CustomColorScheme CustomColorScheme_default)
     (VObj ([(''brand'', VNum (1::int))] @ [(''accent'', VNum 2)]))"
    by (simp add: default_T_eq)
  from c 1 2 3 show ?thesis by blast
qed

text \<open>
  C7, as stated: \<open>paletteTones\<close>, when present, is \<^verbatim>\<open>false\<close> or a non-empty list of tone
  values.  It fails: the member is declared \<^verbatim>\<open>false | number[]\<close>, and the options with the
  empty list conform.
\<close>

theorem paletteTones_empty_list_conforms:
  "conforms (ColorSchemeOptions [''primary''] (TBoolLit False))
     (VObj [(''paletteTones'', VArr [])] :: int val)
   \<and> obj_get (VObj [(''paletteTones'', VArr [])] :: int val) ''paletteTones'' = Some (VArr [])
   \<and> VArr [] \<noteq> (VBool False :: int val)"
  by (simp add: ColorSchemeOptions_def paletteTones_ty)

text \<open>
  C7, amended: \<open>paletteTones\<close>, when set to a value other than \<^verbatim>\<open>undefined\<close>, is the literal
  \<^verbatim>\<open>false\<close> or a list of numbers; \<^verbatim>\<open>false\<close> and every list of numbers, the empty one too,
  are accepted.
\<close>

theorem paletteTones_false_or_numbers:
  "(conforms (ColorSchemeOptions keys V) (v :: 'n val) \<longrightarrow>
      obj_get v ''paletteTones'' = Some x \<longrightarrow> x \<noteq> VUndefined \<longrightarrow>
      x = VBool False \<or> (\<exists>xs. x = VArr xs \<and> (\<forall>y \<in> set xs. is_num y)))
   \<and> conforms (ColorSchemeOptions keys V) (VObj [(''paletteTones'', VBool False)] :: 'n val)
   \<and> conforms (ColorSchemeOptions keys V)
        (VObj [(''paletteTones'', VArr (map VNum (ns :: 'n list)))])"
proof -
  have a: "x = VBool False \<or> (\<exists>xs. x = VArr xs \<and> (\<forall>y \<in> set xs. is_num y))"
    if c: "conforms (ColorSchemeOptions keys V) v" and g: "obj_get v ''paletteTones'' = Some x"
      and u: "x \<noteq> VUndefined"
  proof -
    from c obtain m where m: "v = VObj m"
      by (cases v) (simp_all add: ColorSchemeOptions_def)
    from c g u have "conforms (TUnion [TBoolLit False, TArray TNumber]) x"
      by (simp add: m ColorSchemeOptions_def paletteTones_ty)
    then have "x = VBool False \<or> conforms (TArray TNumber) x"
      by simp
    then show ?thesis
      by (simp only: conforms_number_array)
  qed
  have b: "conforms (ColorSchemeOptions keys V) (VObj [(''paletteTones'', VBool False)])"
    by (simp add: ColorSchemeOptions_def paletteTones_ty)
  have c: "conforms (ColorSchemeOptions keys V) (VObj [(''paletteTones'', VArr (map VNum ns))])"
    by (simp add: ColorSchemeOptions_def paletteTones_ty)
  from a b c show ?thesis by blast
qed

theorem paletteTones_false_or_numbers_witness:
  "conforms (ColorSchemeOptions [''primary''] (TBoolLit False))
     (VObj [(''dark'', VBool True), (''paletteTones'', VArr [VNum (0::int), VNum 10, VNum 20])])
   \<and> conforms (ColorSchemeOptions [''primary''] (TBoolLit False))
     (VObj [(''paletteTones'', VArr (map VNum ([]::int list)))])"
proof -
  have "conforms (ColorSchemeOptions [''primary''] (TBoolLit False))
     (VObj [(''dark'', VBool True), (''paletteTones'', VArr [VNum (0::int), VNum 10, VNum 20])])"
    by (simp add: ColorSchemeOptions_def paletteTones_ty)
  then show ?thesis
    using paletteTones_false_or_numbers [of "[''primary'']" "TBoolLit False"
      "VObj [(''dark'', VBool True), (''paletteTones'', VArr [VNum (0::int), VNum 10, VNum 20])]"
      "VArr [VNum (0::int), VNum 10, VNum 20]" "[]::int list"]
    by simp
qed

text \<open>
  C8.  For scheme options with distinct member names, a value is a \<open>ThemeOptions\<close> if and
  only if it is a value of the scheme options without the \<^verbatim>\<open>isDark\<close> member, extended by
  an optional \<open>staticColors\<close> array of \<open>StaticColor\<close>.
\<close>

theorem ThemeOptions_is_SchemeOptions_without_isDark:
  assumes "distinct (map fst ps)"
  shows "conforms (ThemeOptions (TObj ps None)) v \<longleftrightarrow> conforms (ThemeOptions_spec ps) v"
  by (simp only: ThemeOptions_def ThemeOptions_spec_def Omit_members [OF assms] conforms_TObj_append)

theorem ThemeOptions_is_SchemeOptions_without_isDark_witness:
  "distinct (map fst [(''isDark'', True, TBoolean), (''variant'', True, TNumber),
                      (''contrastLevel'', True, TNumber)])
   \<and> conforms (ThemeOptions (TObj [(''isDark'', True, TBoolean), (''variant'', True, TNumber),
                                    (''contrastLevel'', True, TNumber)] None))
        (VObj [(''contrastLevel'', VNum (1::int)),
               (''staticColors'', VArr [VObj [(''name'', VStr ''brand''), (''value'', VStr ''#ff0000'')]])])
   \<and> conforms (ThemeOptions (TObj [(''isDark'', True, TBoolean), (''variant'', True, TNumber),
                                    (''contrastLevel'', True, TNumber)] None))
        (VObj [(''isDark'', VStr ''yes'') :: string \<times> int val])
   \<and> \<not> conforms (ThemeOptions (TObj [(''isDark'', True, TBoolean), (''variant'', True, TNumber),
                                    (''contrastLevel'', True, TNumber)] None))
        (VObj [(''staticColors'', VNum (1::int))])"
  using ThemeOptions_is_SchemeOptions_without_isDark
    [of "[(''isDark'', True, TBoolean), (''variant'', True, TNumber), (''contrastLevel'', True, TNumber)]"
        "VObj [(''contrastLevel'', VNum (1::int)),
               (''staticColors'', VArr [VObj [(''name'', VStr ''brand''), (''value'', VStr ''#ff0000'')]])]"]
    ThemeOptions_is_SchemeOptions_without_isDark
    [of "[(''isDark'', True, TBoolean), (''variant'', True, TNumber), (''contrastLevel'', True, TNumber)]"
        "VObj [(''isDark'', VStr ''yes'') :: string \<times> int val]"]
    ThemeOptions_is_SchemeOptions_without_isDark
    [of "[(''isDark'', True, TBoolean), (''variant'', True, TNumber), (''contrastLevel'', True, TNumber)]"
        "VObj [(''staticColors'', VNum (1::int))]"]
  by (simp add: ThemeOptions_spec_def StaticColor_def Color_def union_ty_def absorbed_def)

text \<open>
  C9, as stated: every value of \<open>Theme\<close> consists of exactly the listed entries.  It
  fails.  Object types are open: the value below has every declared member and is a
  \<open>Theme\<close>, and it has an entry \<open>extra\<close> besides, a third scheme and a seventh palette.
\<close>

theorem Theme_value_with_further_entries:
  "conforms (Theme TNumber (TObj [] None) (TObj [] None) (TObj [] None))
     (VObj [(''source'', VNum (4284960932::int)), (''contrastLevel'', VNum 0), (''variant'', VNum 2),
            (''schemes'', VObj [(''light'', VObj []), (''dark'', VObj []),
                                (''highContrast'', VObj [])]),
            (''palettes'', VObj [(''primary'', VObj []), (''secondary'', VObj []),
                                 (''tertiary'', VObj []), (''neutral'', VObj []),
                                 (''neutralVariant'', VObj []), (''error'', VObj []),
                                 (''brand'', VObj [])]),
            (''customColors'', VArr []),
            (''extra'', VNum 1)])
   \<and> obj_get
        (VObj [(''source'', VNum (4284960932::int)), (''contrastLevel'', VNum 0), (''variant'', VNum 2),
            (''schemes'', VObj [(''light'', VObj []), (''dark'', VObj []),
                                (''highContrast'', VObj [])]),
            (''palettes'', VObj [(''primary'', VObj []), (''secondary'', VObj []),
                                 (''tertiary'', VObj []), (''neutral'', VObj []),
                                 (''neutralVariant'', VObj []), (''error'', VObj []),
                                 (''brand'', VObj [])]),
            (''customColors'', VArr []),
            (''extra'', VNum 1)]) ''extra'' = Some (VNum 1)
   \<and> ''extra'' \<notin> set [''source'', ''contrastLevel'', ''variant'', ''schemes'', ''palettes'',
                        ''customColors'']
   \<and> ''highContrast'' \<notin> set [''light'', ''dark'']
   \<and> ''brand'' \<notin> set [''primary'', ''secondary'', ''tertiary'', ''neutral'',
                        ''neutralVariant'', ''error'']"
  by (simp add: Theme_def)

text \<open>
  C9, amended: \<open>Theme\<close> declares exactly the members \<open>source\<close>, \<open>contrastLevel\<close>,
  \<open>variant\<close>, \<open>schemes\<close>, \<open>palettes\<close> and \<open>customColors\<close>; \<open>schemes\<close> declares exactly
  \<open>light\<close> and \<open>dark\<close>, \<open>palettes\<close> exactly the six palette names; and a value is a
  \<open>Theme\<close> if and only if it is an object that has at least a number at \<open>source\<close> and at
  \<open>contrastLevel\<close>, a variant, the two dynamic schemes, the six tonal palettes and a list
  of custom color groups.  Further entries are not excluded.
\<close>

theorem Theme_shape:
  "map fst (members (Theme Va DS TP CG))
     = [''source'', ''contrastLevel'', ''variant'', ''schemes'', ''palettes'', ''customColors'']
   \<and> map fst (members (member_ty (Theme Va DS TP CG) ''schemes'')) = [''light'', ''dark'']
   \<and> map fst (members (member_ty (Theme Va DS TP CG) ''palettes''))
       = [''primary'', ''secondary'', ''tertiary'', ''neutral'', ''neutralVariant'', ''error'']
   \<and> index_sig (Theme Va DS TP CG) = None
   \<and> index_sig (member_ty (Theme Va DS TP CG) ''schemes'') = None
   \<and> index_sig (member_ty (Theme Va DS TP CG) ''palettes'') = None
   \<and> (conforms (Theme Va DS TP CG) v \<longleftrightarrow>
        is_obj v
        \<and> has_member v ''source'' TNumber
        \<and> has_member v ''contrastLevel'' TNumber
        \<and> has_member v ''variant'' Va
        \<and> (\<exists>s. obj_get v ''schemes'' = Some s \<and> is_obj s
               \<and> has_member s ''light'' DS \<and> has_member s ''dark'' DS)
        \<and> (\<exists>p. obj_get v ''palettes'' = Some p \<and> is_obj p
               \<and> has_member p ''primary'' TP \<and> has_member p ''secondary'' TP
               \<and> has_member p ''tertiary'' TP \<and> has_member p ''neutral'' TP
               \<and> has_member p ''neutralVariant'' TP \<and> has_member p ''error'' TP)
        \<and> (\<exists>cs. obj_get v ''customColors'' = Some (VArr cs) \<and> (\<forall>c \<in> set cs. conforms CG c)))"
proof -
  let ?S = "TObj (map (\<lambda>(k, t). (k, False, t)) [(''light'', DS), (''dark'', DS)]) None"
  let ?P = "TObj (map (\<lambda>(k, t). (k, False, t))
      [(''primary'', TP), (''secondary'', TP), (''tertiary'', TP), (''neutral'', TP),
       (''neutralVariant'', TP), (''error'', TP)]) None"
  have T: "Theme Va DS TP CG = TObj (map (\<lambda>(k, t). (k, False, t))
      [(''source'', TNumber), (''contrastLevel'', TNumber), (''variant'', Va),
       (''schemes'', ?S), (''palettes'', ?P), (''customColors'', TArray CG)]) None"
    by (simp add: Theme_def)
  have names: "map fst (members (Theme Va DS TP CG))
     = [''source'', ''contrastLevel'', ''variant'', ''schemes'', ''palettes'', ''customColors'']"
    "map fst (members (member_ty (Theme Va DS TP CG) ''schemes'')) = [''light'', ''dark'']"
    "map fst (members (member_ty (Theme Va DS TP CG) ''palettes''))
       = [''primary'', ''secondary'', ''tertiary'', ''neutral'', ''neutralVariant'', ''error'']"
    "index_sig (Theme Va DS TP CG) = None"
    "index_sig (member_ty (Theme Va DS TP CG) ''schemes'') = None"
    "index_sig (member_ty (Theme Va DS TP CG) ''palettes'') = None"
    by (simp_all add: Theme_def member_ty_def)
  have S: "has_member v ''schemes'' ?S \<longleftrightarrow>
      (\<exists>s. obj_get v ''schemes'' = Some s \<and> is_obj s
               \<and> has_member s ''light'' DS \<and> has_member s ''dark'' DS)"
    unfolding has_member_def [of v] conforms_required_members
    by (cases "obj_get v ''schemes''") simp_all
  have P: "has_member v ''palettes'' ?P \<longleftrightarrow>
      (\<exists>p. obj_get v ''palettes'' = Some p \<and> is_obj p
               \<and> has_member p ''primary'' TP \<and> has_member p ''secondary'' TP
               \<and> has_member p ''tertiary'' TP \<and> has_member p ''neutral'' TP
               \<and> has_member p ''neutralVariant'' TP \<and> has_member p ''error'' TP)"
    unfolding has_member_def [of v] conforms_required_members
    by (cases "obj_get v ''palettes''") simp_all
  have C: "has_member v ''customColors'' (TArray CG) \<longleftrightarrow>
      (\<exists>cs. obj_get v ''customColors'' = Some (VArr cs) \<and> (\<forall>c \<in> set cs. conforms CG c))"
  proof (cases "obj_get v ''customColors''")
    case None
    then show ?thesis by (simp add: has_member_def)
  next
    case (Some x)
    then show ?thesis by (cases x) (simp_all add: has_member_def)
  qed
  have "conforms (Theme Va DS TP CG) v \<longleftrightarrow>
        is_obj v
        \<and> has_member v ''source'' TNumber
        \<and> has_member v ''contrastLevel'' TNumber
        \<and> has_member v ''variant'' Va
        \<and> has_member v ''schemes'' ?S
        \<and> has_member v ''palettes'' ?P
        \<and> has_member v ''customColors'' (TArray CG)"
    unfolding T conforms_required_members by simp
  with names S P C show ?thesis
    by (simp only: simp_thms)
qed

theorem Theme_shape_witness:
  "conforms (Theme TNumber (TObj [] None) (TObj [] None) (TObj [] None))
     (VObj [(''source'', VNum (4284960932::int)), (''contrastLevel'', VNum 0), (''variant'', VNum 2),
            (''schemes'', VObj [(''light'', VObj []), (''dark'', VObj [])]),
            (''palettes'', VObj [(''primary'', VObj []), (''secondary'', VObj []),
                                 (''tertiary'', VObj []), (''neutral'', VObj []),
                                 (''neutralVariant'', VObj []), (''error'', VObj [])]),
            (''customColors'', VArr [])])
   \<and> \<not> conforms (Theme TNumber (TObj [] None) (TObj [] None) (TObj [] None))
     (VObj [(''source'', VNum (4284960932::int)), (''contrastLevel'', VNum 0), (''variant'', VNum 2),
            (''schemes'', VObj [(''light'', VObj [])]),
            (''palettes'', VObj [(''primary'', VObj []), (''secondary'', VObj []),
                                 (''tertiary'', VObj []), (''neutral'', VObj []),
                                 (''neutralVariant'', VObj []), (''error'', VObj [])]),
            (''customColors'', VArr [])])"
  using Theme_shape [of TNumber "TObj [] None" "TObj [] None" "TObj [] None"
     "VObj [(''source'', VNum (4284960932::int)), (''contrastLevel'', VNum 0), (''variant'', VNum 2),
            (''schemes'', VObj [(''light'', VObj []), (''dark'', VObj [])]),
            (''palettes'', VObj [(''primary'', VObj []), (''secondary'', VObj []),
                                 (''tertiary'', VObj []), (''neutral'', VObj []),
                                 (''neutralVariant'', VObj []), (''error'', VObj [])]),
            (''customColors'', VArr [])]"]
    Theme_shape [of TNumber "TObj [] None" "TObj [] None" "TObj [] None"
     "VObj [(''source'', VNum (4284960932::int)), (''contrastLevel'', VNum 0), (''variant'', VNum 2),
            (''schemes'', VObj [(''light'', VObj [])]),
            (''palettes'', VObj [(''primary'', VObj []), (''secondary'', VObj []),
                                 (''tertiary'', VObj []), (''neutral'', VObj []),
                                 (''neutralVariant'', VObj []), (''error'', VObj [])]),
            (''customColors'', VArr [])]"]
  by (simp add: has_member_def)

text \<open>
  C10.  With the default type parameter, the values of \<open>CustomColorScheme\<close> are the objects
  all of whose entries are numbers: none has a string entry, although the default
  parameter by itself admits an object with a string entry.
\<close>

theorem CustomColorScheme_default_numbers_only:
  "(conforms (CustomColorScheme CustomColorScheme_default) (v :: 'n val)
      \<longleftrightarrow> (\<exists>m. v = VObj m \<and> (\<forall>e \<in> set m. is_num (snd e))))
   \<and> (conforms (CustomColorScheme CustomColorScheme_default) (VObj m :: 'n val)
      \<longrightarrow> (\<forall>e \<in> set m. \<not> is_str (snd e)))
   \<and> conforms CustomColorScheme_default (VObj [(k, VStr s)] :: 'n val)
   \<and> \<not> conforms (CustomColorScheme CustomColorScheme_default) (VObj [(k, VStr s)] :: 'n val)"
proof -
  have "conforms CustomColorScheme_default (VObj [(k, VStr s)] :: 'n val)"
    by (simp add: default_T_eq)
  then show ?thesis
    by (simp only: conforms_Custom_default) (auto simp: num_not_str)
qed

theorem CustomColorScheme_default_numbers_only_witness:
  "conforms (CustomColorScheme CustomColorScheme_default)
     (VObj [(''brand'', VNum (4278190080::int))])
   \<and> conforms CustomColorScheme_default (VObj [(''brand'', VStr ''#000000'') :: string \<times> int val])
   \<and> \<not> conforms (CustomColorScheme CustomColorScheme_default)
        (VObj [(''brand'', VStr ''#000000'') :: string \<times> int val])"
  using CustomColorScheme_default_numbers_only
    [of "VObj [(''brand'', VNum (4278190080::int))]" "[]" "''brand''" "''#000000''"]
  by simp

end
